theory Spec2Isabelle
  imports Main
begin

section \<open>Strings\<close>

text \<open>
  A JavaScript string is modelled as a \<^typ>\<open>string\<close> whose characters are read as the code
  points U+0000 to U+00FF. On that range \<open>String.prototype.toLowerCase\<close> moves the letters
  A to Z and the Latin-1 capitals U+00C0 to U+00DE (without the multiplication sign U+00D7)
  up by 32; \<open>trim\<close> and the regular expression class \<open>\s\<close> know the white space
  characters U+0009 to U+000D, U+0020 and U+00A0; the class \<open>\w\<close> is \<open>[A-Za-z0-9_]\<close>.
\<close>

definition isUpper :: "char \<Rightarrow> bool" where
  "isUpper c =
     (let n = (of_char c :: nat)
      in (65 \<le> n \<and> n \<le> 90) \<or> (192 \<le> n \<and> n \<le> 222 \<and> n \<noteq> 215))"

definition toLowerChar :: "char \<Rightarrow> char" where
  "toLowerChar c = (if isUpper c then char_of (of_char c + (32::nat)) else c)"

definition toLowerCase :: "string \<Rightarrow> string" where
  "toLowerCase s = map toLowerChar s"

definition isWhiteSpace :: "char \<Rightarrow> bool" where
  "isWhiteSpace c =
     (let n = (of_char c :: nat) in (9 \<le> n \<and> n \<le> 13) \<or> n = 32 \<or> n = 160)"

definition isWordChar :: "char \<Rightarrow> bool" where
  "isWordChar c =
     (let n = (of_char c :: nat)
      in (48 \<le> n \<and> n \<le> 57) \<or> (65 \<le> n \<and> n \<le> 90) \<or> n = 95 \<or> (97 \<le> n \<and> n \<le> 122))"

definition trim :: "string \<Rightarrow> string" where
  "trim s = rev (dropWhile isWhiteSpace (rev (dropWhile isWhiteSpace s)))"

text \<open>
  \<open>s.split(sep)\<close> with a one-character separator: the pieces between the occurrences of
  the separator, empty pieces included; the empty string gives one empty piece. The
  separator is given as a predicate so that the same function also splits at every
  white space character.
\<close>

fun splitAt :: "(char \<Rightarrow> bool) \<Rightarrow> string \<Rightarrow> string list" where
  "splitAt p [] = [[]]"
| "splitAt p (c # cs) =
     (if p c then [] # splitAt p cs
      else (case splitAt p cs of
              [] \<Rightarrow> [[c]]
            | w # ws \<Rightarrow> (c # w) # ws))"

text \<open>\<open>xs.join(sep)\<close> on an array of strings.\<close>

fun join :: "string \<Rightarrow> string list \<Rightarrow> string" where
  "join sep [] = []"
| "join sep [x] = x"
| "join sep (x # y # ys) = x @ sep @ join sep (y # ys)"

section \<open>Keyword extraction (\<open>RAGAgent.directSearch\<close>, the fallback's first statement)\<close>

text \<open>
  \<^verbatim>\<open>query.toLowerCase().replace(/[^\w\s]/g, ' ').split(' ')
       .filter(word => word.length > 2 && ![...].includes(word)).slice(0, 3)\<close>
\<close>

definition stopWords :: "string list" where
  "stopWords = [''the'', ''and'', ''or'', ''but'', ''in'', ''on'', ''at'', ''to'', ''for'',
                ''of'', ''with'', ''by'']"

definition replacePunct :: "char \<Rightarrow> char" where
  "replacePunct c = (if \<not> isWordChar c \<and> \<not> isWhiteSpace c then CHR '' '' else c)"

definition meaningful :: "string \<Rightarrow> bool" where
  "meaningful word = (length word > 2 \<and> word \<notin> set stopWords)"

definition extractKeywords :: "string \<Rightarrow> string list" where
  "extractKeywords query =
     take 3 (filter meaningful
       (splitAt (\<lambda>c. c = CHR '' '') (map replacePunct (toLowerCase query))))"

text \<open>
  The same pipeline in the words of the specification, which splits on white space:
  lower-case, replace punctuation, split at every white space character, drop the short
  words and the stop words, keep the first three.
\<close>

definition extractKeywords_spec :: "string \<Rightarrow> string list" where
  "extractKeywords_spec query =
     take 3 (filter meaningful
       (splitAt isWhiteSpace (map replacePunct (toLowerCase query))))"

section \<open>Data model\<close>

text \<open>An exception is an \<open>Error\<close> object; the code reads its \<open>message\<close> only.\<close>

datatype exn = Error (message: string)

text \<open>
  Optional properties of the result objects are \<open>option\<close> fields: \<open>None\<close> is a property
  that the object literal does not have (\<open>undefined\<close> when read). A string that is
  concatenated or put into a template literal goes through \<open>js_str\<close>; \<open>or_default v d\<close> is
  \<open>v || d\<close> on an optional string (a missing and an empty string are falsy).
\<close>

definition js_str :: "string option \<Rightarrow> string" where
  "js_str v = (case v of None \<Rightarrow> ''undefined'' | Some s \<Rightarrow> s)"

definition or_default :: "string option \<Rightarrow> string \<Rightarrow> string" where
  "or_default v d = (case v of None \<Rightarrow> d | Some s \<Rightarrow> if s = [] then d else s)"

record message =
  role :: string
  content :: string

text \<open>
  The Chart.js configuration built by \<open>ChartTool._call\<close>. The constant styling (colours,
  fonts, legend) is left out; \<open>scales\<close> tells whether \<open>options.scales\<close> is defined.
\<close>

record dataset =
  ds_label :: "string option"
  ds_data :: "int list"

record mockData =
  labels :: "string list"
  datasets :: "dataset list"

record chartConfig =
  chart_type :: string
  chart_data :: mockData
  title_text :: string
  scales :: bool

record chartResult =
  cr_success :: bool
  cr_chartConfig :: "chartConfig option"
  cr_message :: "string option"
  cr_error :: "string option"

record ragResult =
  rr_success :: bool
  rr_answer :: "string option"
  rr_sources :: "string list option"
  rr_error :: "string option"

text \<open>
  The object \<open>references\<close> is the list of its properties, in the order of the literal:
  \<open>{}\<close> is the empty list.
\<close>

record finalResponse =
  answer :: string
  references :: "(string \<times> string list) list"
  fileIds :: "string list"
  chartConfig :: "chartConfig option"

text \<open>The channels of the state graph, each with its default value.\<close>

record state =
  messages :: "message list"
  userQuery :: string
  decision :: "string option"
  chartResult :: "chartResult option"
  ragResult :: "ragResult option"
  finalResponse :: "finalResponse option"

text \<open>What a node returns: the channels it names. \<open>None\<close> is a channel left out.\<close>

record update =
  u_decision :: "string option"
  u_chartResult :: "chartResult option"
  u_ragResult :: "ragResult option"
  u_finalResponse :: "finalResponse option"
  u_messages :: "message list option"

text \<open>
  The reducers of \<open>stateSchema\<close>: \<open>messages\<close> concatenates, every other channel takes
  the new value.
\<close>

definition applyUpdate :: "state \<Rightarrow> update \<Rightarrow> state" where
  "applyUpdate s u =
     s\<lparr> decision := (case u_decision u of None \<Rightarrow> decision s | Some d \<Rightarrow> Some d),
        chartResult := (case u_chartResult u of None \<Rightarrow> chartResult s | Some c \<Rightarrow> Some c),
        ragResult := (case u_ragResult u of None \<Rightarrow> ragResult s | Some r \<Rightarrow> Some r),
        finalResponse :=
          (case u_finalResponse u of None \<Rightarrow> finalResponse s | Some f \<Rightarrow> Some f),
        messages := (case u_messages u of None \<Rightarrow> messages s | Some m \<Rightarrow> messages s @ m) \<rparr>"

definition noUpdate :: update where
  "noUpdate = \<lparr> u_decision = None, u_chartResult = None, u_ragResult = None,
                u_finalResponse = None, u_messages = None \<rparr>"

datatype node = analyze_query | chart_tool | rag_agent | direct_response | combine_results

section \<open>Collaborators and effects\<close>

text \<open>
  An entry of the knowledge base as the search returns it (\<open>fileId\<close>, \<open>question\<close>,
  \<open>answer\<close>; the \<open>distance\<close> that the similarity search attaches is never read).
\<close>

record entry =
  fileId :: string
  question :: string
  e_answer :: string

text \<open>
  The two shapes of a database response. A GraphQL response carries its entries under
  \<open>data.Get.QuestionAnswer\<close>; the response of the object getter carries them under
  \<open>data\<close>, each below \<open>properties\<close>. \<open>None\<close> is a response without the array.
\<close>

datatype response = GraphQL "entry list option" | Objects "entry list option"

text \<open>
  The chart parameters as \<open>JSON.parse\<close> reads them from the completion: the value
  \<open>null\<close>, or a value with the properties \<open>chartType\<close>, \<open>data\<close> and \<open>title\<close> (in this
  order), each a string or missing. \<open>JSON.stringify\<close> followed by \<open>JSON.parse\<close> gives such a
  value back unchanged, so the JSON text that the orchestrator and the chart tool exchange
  is modelled by the value itself. A property of another JSON type (a number, an object)
  is outside this model; the prompt asks for strings.
\<close>

datatype chartParams = JsonNull | JsonValue "string option" "string option" "string option"

text \<open>The prompts sent to the chat model, each with the variables of its template.\<close>

datatype prompt =
    AnalyzePrompt string
  | ChartPrompt string
  | RagPrompt string string
  | DirectPrompt string
  | CombinePrompt string chartResult "string option"

text \<open>
  The services that the code calls and does not own. Each call returns its value or
  raises; \<open>chatModel\<close> gives \<open>response.content\<close>.
\<close>

record env =
  chatModel :: "prompt \<Rightarrow> exn + string"
  nearText :: "string \<Rightarrow> nat \<Rightarrow> exn + entry list option"
  containsAny :: "string list \<Rightarrow> nat \<Rightarrow> exn + entry list option"
  getter :: "nat \<Rightarrow> exn + entry list option"
  JSON_parse :: "string \<Rightarrow> exn + chartParams"

text \<open>What a run does that can be seen from outside, in order.\<close>

datatype event =
    NodeRun node
  | CompletionCall prompt
  | RagQuery string
  | SimilaritySearch string nat
  | KeywordSearch "string list" nat
  | UnrestrictedFetch nat

text \<open>
  An \<open>async\<close> function returns a value or rejects with an exception, and leaves the
  events of the calls it made.
\<close>

type_synonym 'a io = "(exn + 'a) \<times> event list"

definition return_io :: "'a \<Rightarrow> 'a io" where
  "return_io x = (Inr x, [])"

definition throw_io :: "exn \<Rightarrow> 'a io" where
  "throw_io e = (Inl e, [])"

definition call :: "event \<Rightarrow> exn + 'a \<Rightarrow> 'a io" where
  "call ev r = (r, [ev])"

definition bind_io :: "'a io \<Rightarrow> ('a \<Rightarrow> 'b io) \<Rightarrow> 'b io" where
  "bind_io m f =
     (case m of
        (Inl e, l) \<Rightarrow> (Inl e, l)
      | (Inr x, l) \<Rightarrow> (case f x of (r, l') \<Rightarrow> (r, l @ l')))"

definition try_catch :: "'a io \<Rightarrow> (exn \<Rightarrow> 'a io) \<Rightarrow> 'a io" where
  "try_catch m h =
     (case m of
        (Inl e, l) \<Rightarrow> (case h e of (r, l') \<Rightarrow> (r, l @ l'))
      | (Inr x, l) \<Rightarrow> (Inr x, l))"

definition emit :: "event \<Rightarrow> unit io" where
  "emit ev = (Inr (), [ev])"

text \<open>\<open>prompt.pipe(chatModel).invoke(...)\<close>, read at \<open>response.content\<close>.\<close>

definition invoke :: "env \<Rightarrow> prompt \<Rightarrow> string io" where
  "invoke env p = call (CompletionCall p) (chatModel env p)"

section \<open>The chart tool (\<open>ChartTool\<close>)\<close>

definition months :: "string list" where
  "months = [''January'', ''February'', ''March'', ''April'', ''May'', ''June'']"

definition generateMockData :: "string \<Rightarrow> string \<Rightarrow> mockData" where
  "generateMockData chartType dataDescription =
     (if chartType = ''line'' then
        \<lparr> labels = months,
          datasets = [\<lparr> ds_label = Some ''Dataset 1'', ds_data = [65, 59, 80, 81, 56, 55] \<rparr>,
                      \<lparr> ds_label = Some ''Dataset 2'', ds_data = [28, 48, 40, 19, 86, 27] \<rparr>] \<rparr>
      else if chartType = ''bar'' then
        \<lparr> labels = months,
          datasets = [\<lparr> ds_label = Some ''Sales'', ds_data = [12, 19, 3, 5, 2, 3] \<rparr>] \<rparr>
      else if chartType = ''pie'' \<or> chartType = ''doughnut'' then
        \<lparr> labels = [''Red'', ''Blue'', ''Yellow'', ''Green'', ''Purple'', ''Orange''],
          datasets = [\<lparr> ds_label = None, ds_data = [12, 19, 3, 5, 2, 3] \<rparr>] \<rparr>
      else if chartType = ''radar'' then
        \<lparr> labels = [''Speed'', ''Reliability'', ''Comfort'', ''Safety'', ''Efficiency'',
                    ''Durability''],
          datasets = [\<lparr> ds_label = Some ''Product A'', ds_data = [65, 59, 90, 81, 56, 55] \<rparr>,
                      \<lparr> ds_label = Some ''Product B'', ds_data = [28, 48, 40, 19, 96, 27] \<rparr>] \<rparr>
      else
        \<lparr> labels = months,
          datasets = [\<lparr> ds_label = Some ''Default Dataset'', ds_data = [1, 2, 3, 4, 5, 6] \<rparr>] \<rparr>)"

text \<open>
  \<open>ChartTool._call(input)\<close> on the string input that every caller of this repository
  passes, the JSON text of the chart parameters. On the text \<open>null\<close> the property read
  raises inside the inner \<open>try\<close>, whose handler takes the input text as the data. The
  result is the object whose JSON text \<open>_call\<close> returns.
\<close>

definition ChartTool_call :: "chartParams \<Rightarrow> chartResult io" where
  "ChartTool_call input =
     try_catch
       (let (chartType, data, title) =
              (case input of
                 JsonValue ct d t \<Rightarrow> (ct, d, t)
               | JsonNull \<Rightarrow> (Some ''bar'', Some ''null'', Some ''Chart''));
            chartType = or_default chartType ''bar'';
            data = or_default data ''Data'';
            title = or_default title ''Chart'';
            mockData = generateMockData chartType data;
            config =
              \<lparr> chart_type = chartType, chart_data = mockData, title_text = title,
                scales = (chartType \<noteq> ''pie'' \<and> chartType \<noteq> ''doughnut'') \<rparr>
        in return_io
             \<lparr> cr_success = True, cr_chartConfig = Some config,
               cr_message =
                 Some (''Generated '' @ chartType @ '' chart configuration for: '' @ title),
               cr_error = None \<rparr>)
       (\<lambda>error. return_io
          \<lparr> cr_success = False, cr_chartConfig = None,
            cr_message = Some ''Failed to generate chart configuration'',
            cr_error = Some (message error) \<rparr>)"

section \<open>The retrieval handler (\<open>RAGAgent\<close>)\<close>

record searchResults =
  sr_success :: bool
  sr_results :: "entry list option"
  sr_count :: "nat option"
  sr_note :: "string option"
  sr_error :: "string option"
  sr_message :: "string option"

text \<open>
  \<open>result.data.Get[CLASS_NAME] || []\<close>: on the response of the object getter there is no
  \<open>Get\<close> to read the class from, and the read raises a \<open>TypeError\<close>.
\<close>

definition readGet :: "response \<Rightarrow> entry list io" where
  "readGet result =
     (case result of
        GraphQL es \<Rightarrow> return_io (case es of None \<Rightarrow> [] | Some xs \<Rightarrow> xs)
      | Objects os \<Rightarrow> throw_io (Error ''TypeError''))"

definition directSearch :: "env \<Rightarrow> string \<Rightarrow> nat \<Rightarrow> searchResults io" where
  "directSearch env query limit =
     try_catch
       (bind_io
          (try_catch
             (bind_io (call (SimilaritySearch query limit) (nearText env query limit))
                (\<lambda>r. return_io (GraphQL r)))
             (\<lambda>error.
                let keywords = extractKeywords query
                in if length keywords = 0
                   then bind_io (call (UnrestrictedFetch limit) (getter env limit))
                          (\<lambda>r. return_io (Objects r))
                   else bind_io
                          (call (KeywordSearch keywords limit) (containsAny env keywords limit))
                          (\<lambda>r. return_io (GraphQL r))))
          (\<lambda>result. bind_io (readGet result)
             (\<lambda>results. return_io
                \<lparr> sr_success = True, sr_results = Some results,
                  sr_count = Some (length results), sr_note = None, sr_error = None,
                  sr_message = None \<rparr>)))
       (\<lambda>error.
          try_catch
            (bind_io (call (UnrestrictedFetch limit) (getter env limit))
               (\<lambda>allObjects.
                  let results = (case allObjects of None \<Rightarrow> [] | Some xs \<Rightarrow> xs)
                  in return_io
                       \<lparr> sr_success = True, sr_results = Some results,
                         sr_count = Some (length results),
                         sr_note = Some ''Used fallback fetchObjects API'', sr_error = None,
                         sr_message = None \<rparr>))
            (\<lambda>fallbackError. return_io
               \<lparr> sr_success = False, sr_results = None, sr_count = None, sr_note = None,
                 sr_error = Some (message fallbackError),
                 sr_message = Some ''Both vector search and fallback failed'' \<rparr>))"

definition formatEntry :: "entry \<Rightarrow> string" where
  "formatEntry result =
     ''File: '' @ fileId result @ [CHR 0x0A] @ ''Question: '' @ question result @ [CHR 0x0A]
       @ ''Answer: '' @ e_answer result @ [CHR 0x0A]"

text \<open>
  \<open>RAGAgent.query\<close>. Reading \<open>results.length\<close> of a search result without \<open>results\<close>
  would raise inside the \<open>try\<close>.
\<close>

definition RAGAgent_query :: "env \<Rightarrow> string \<Rightarrow> ragResult io" where
  "RAGAgent_query env query =
     bind_io (emit (RagQuery query)) (\<lambda>_.
       try_catch
         (bind_io (directSearch env query 3) (\<lambda>searchResults.
            if \<not> sr_success searchResults then
              return_io
                \<lparr> rr_success = False,
                  rr_answer = Some ''I could not find relevant information in the database.'',
                  rr_sources = Some [], rr_error = None \<rparr>
            else
              (case sr_results searchResults of
                 None \<Rightarrow> throw_io (Error ''TypeError'')
               | Some results \<Rightarrow>
                   if length results = 0 then
                     return_io
                       \<lparr> rr_success = False,
                         rr_answer =
                           Some ''I could not find relevant information in the database.'',
                         rr_sources = Some [], rr_error = None \<rparr>
                   else
                     let context = join [CHR 0x0A] (map formatEntry results)
                     in bind_io (invoke env (RagPrompt context query)) (\<lambda>content.
                          return_io
                            \<lparr> rr_success = True, rr_answer = Some content,
                              rr_sources = Some (map fileId results), rr_error = None \<rparr>))))
         (\<lambda>error. return_io
            \<lparr> rr_success = False,
              rr_answer = Some ''I encountered an error while processing your query.'',
              rr_sources = None, rr_error = Some (message error) \<rparr>))"

section \<open>The orchestrator (\<open>DelegatingAgent\<close>)\<close>

definition assistant :: "string \<Rightarrow> message" where
  "assistant text = \<lparr> role = ''assistant'', content = text \<rparr>"

definition analyzeQuery :: "env \<Rightarrow> state \<Rightarrow> update io" where
  "analyzeQuery env state =
     bind_io (invoke env (AnalyzePrompt (userQuery state))) (\<lambda>response.
       let d = trim (toLowerCase response)
       in return_io
            (noUpdate\<lparr> u_decision := Some d,
                       u_messages := Some (messages state @ [assistant (''Decision: '' @ d)]) \<rparr>))"

definition routeDecision :: "state \<Rightarrow> node" where
  "routeDecision state =
     (if decision state = Some ''chart'' then chart_tool
      else if decision state = Some ''rag'' then rag_agent
      else if decision state = Some ''both'' then chart_tool
      else direct_response)"

text \<open>
  The inner \<open>try\<close> of \<open>executeChartTool\<close>: the parsed completion, or the default
  parameters when \<open>JSON.parse\<close> raises.
\<close>

definition parseChartParams :: "env \<Rightarrow> string \<Rightarrow> string \<Rightarrow> chartParams" where
  "parseChartParams env query response =
     (case JSON_parse env response of
        Inr parsed \<Rightarrow> parsed
      | Inl error \<Rightarrow> JsonValue (Some ''bar'') (Some query) (Some ''Data Visualization''))"

definition executeChartTool :: "env \<Rightarrow> state \<Rightarrow> update io" where
  "executeChartTool env state =
     try_catch
       (bind_io (invoke env (ChartPrompt (userQuery state))) (\<lambda>response.
          bind_io (ChartTool_call (parseChartParams env (userQuery state) response)) (\<lambda>result.
            return_io
              (noUpdate\<lparr> u_chartResult := Some result,
                         u_messages :=
                           Some (messages state @ [assistant ''Chart tool executed'']) \<rparr>))))
       (\<lambda>error. return_io
          (noUpdate\<lparr> u_chartResult :=
                       Some \<lparr> cr_success = False, cr_chartConfig = None, cr_message = None,
                              cr_error = Some (message error) \<rparr>,
                     u_messages := Some (messages state @ [assistant ''Chart tool failed'']) \<rparr>))"

definition executeRAGAgent :: "env \<Rightarrow> state \<Rightarrow> update io" where
  "executeRAGAgent env state =
     try_catch
       (bind_io (RAGAgent_query env (userQuery state)) (\<lambda>result.
          return_io
            (noUpdate\<lparr> u_ragResult := Some result,
                       u_messages :=
                         Some (messages state @ [assistant ''RAG agent executed'']) \<rparr>)))
       (\<lambda>error. return_io
          (noUpdate\<lparr> u_ragResult :=
                       Some \<lparr> rr_success = False, rr_answer = None, rr_sources = None,
                              rr_error = Some (message error) \<rparr>,
                     u_messages := Some (messages state @ [assistant ''RAG agent failed'']) \<rparr>))"

definition directResponse :: "env \<Rightarrow> state \<Rightarrow> update io" where
  "directResponse env state =
     bind_io (invoke env (DirectPrompt (userQuery state))) (\<lambda>response.
       return_io
         (noUpdate\<lparr> u_finalResponse :=
                      Some \<lparr> answer = response, references = [], fileIds = [],
                             chartConfig = None \<rparr>,
                    u_messages := Some (messages state @ [assistant response]) \<rparr>))"

text \<open>\<open>chartResult && chartResult.success\<close> and \<open>ragResult && ragResult.success\<close>.\<close>

definition chartOk :: "chartResult option \<Rightarrow> bool" where
  "chartOk c = (case c of None \<Rightarrow> False | Some r \<Rightarrow> cr_success r)"

definition ragOk :: "ragResult option \<Rightarrow> bool" where
  "ragOk c = (case c of None \<Rightarrow> False | Some r \<Rightarrow> rr_success r)"

text \<open>
  \<open>combineResults\<close>, statement by statement: the deferred retrieval, the two
  \<open>Process ... result\<close> blocks, the synthesis call when both succeeded, and the block
  under \<open>if (!finalAnswer)\<close>.
\<close>

definition combineResults :: "env \<Rightarrow> state \<Rightarrow> update io" where
  "combineResults env state =
     try_catch
       (bind_io
          (if chartResult state \<noteq> None \<and> ragResult state = None
                \<and> decision state = Some ''both''
           then bind_io (RAGAgent_query env (userQuery state)) (\<lambda>r. return_io (Some r))
           else return_io (ragResult state))
          (\<lambda>rag.
             let chart = chartResult state;
                 config = (if chartOk chart then Option.bind chart cr_chartConfig else None);
                 answer1 = (if chartOk chart then ''I've created a chart for you. '' else []);
                 answer2 =
                   (if ragOk rag then answer1 @ js_str (Option.bind rag rr_answer) else answer1);
                 ids =
                   (if ragOk rag
                    then (case Option.bind rag rr_sources of None \<Rightarrow> [] | Some xs \<Rightarrow> xs)
                    else []);
                 refs = (if ragOk rag then [(''ragSources'', ids)] else [])
             in bind_io
                  (case chart of
                     None \<Rightarrow> return_io answer2
                   | Some c \<Rightarrow>
                       if ragOk rag \<and> cr_success c
                       then invoke env
                              (CombinePrompt (userQuery state) c (Option.bind rag rr_answer))
                       else return_io answer2)
                  (\<lambda>answer3.
                     let finalAnswer =
                           (if answer3 = [] then
                              (if chartOk chart
                               then or_default (Option.bind chart cr_message)
                                      ''Chart created successfully.''
                               else if ragOk rag then js_str (Option.bind rag rr_answer)
                               else ''I encountered an error processing your request.'')
                            else answer3)
                     in return_io
                          (noUpdate\<lparr> u_finalResponse :=
                                       Some \<lparr> answer = finalAnswer, references = refs,
                                              fileIds = ids, chartConfig = config \<rparr>,
                                     u_messages :=
                                       Some (messages state @ [assistant finalAnswer]) \<rparr>))))
       (\<lambda>error. return_io
          (noUpdate\<lparr> u_finalResponse :=
                       Some \<lparr> answer = ''I encountered an error while processing your request.'',
                              references = [], fileIds = [], chartConfig = None \<rparr>,
                     u_messages :=
                       Some (messages state @ [assistant ''Error in combining results'']) \<rparr>))"

text \<open>
  The compiled graph: \<open>analyze_query\<close> is the entry point, \<open>routeDecision\<close> chooses its
  successor, and the fixed edges lead from the two tool nodes to \<open>combine_results\<close> and
  from \<open>direct_response\<close> and \<open>combine_results\<close> to \<open>END\<close> (\<open>None\<close>). A node that rejects
  makes the whole invocation reject.
\<close>

definition runNode :: "env \<Rightarrow> node \<Rightarrow> state \<Rightarrow> update io" where
  "runNode env n state =
     bind_io (emit (NodeRun n)) (\<lambda>_.
       case n of
         analyze_query \<Rightarrow> analyzeQuery env state
       | chart_tool \<Rightarrow> executeChartTool env state
       | rag_agent \<Rightarrow> executeRAGAgent env state
       | direct_response \<Rightarrow> directResponse env state
       | combine_results \<Rightarrow> combineResults env state)"

fun edge :: "node \<Rightarrow> node option" where
  "edge chart_tool = Some combine_results"
| "edge rag_agent = Some combine_results"
| "edge direct_response = None"
| "edge combine_results = None"
| "edge analyze_query = None"

definition app_invoke :: "env \<Rightarrow> state \<Rightarrow> state io" where
  "app_invoke env input =
     bind_io (runNode env analyze_query input) (\<lambda>u1.
       let s1 = applyUpdate input u1;
           n = routeDecision s1
       in bind_io (runNode env n s1) (\<lambda>u2.
            let s2 = applyUpdate s1 u2
            in (case edge n of
                  None \<Rightarrow> return_io s2
                | Some n' \<Rightarrow>
                    bind_io (runNode env n' s2) (\<lambda>u3. return_io (applyUpdate s2 u3)))))"

text \<open>The input of \<open>processQuery\<close>, laid over the defaults of the channels.\<close>

definition initialState :: "string \<Rightarrow> state" where
  "initialState query =
     \<lparr> messages = [] @ [\<lparr> role = ''user'', content = query \<rparr>], userQuery = query,
       decision = None, chartResult = None, ragResult = None, finalResponse = None \<rparr>"

definition processQuery :: "env \<Rightarrow> string \<Rightarrow> finalResponse io" where
  "processQuery env query =
     try_catch
       (bind_io (app_invoke env (initialState query)) (\<lambda>result.
          return_io
            (case finalResponse result of
               Some response \<Rightarrow> response
             | None \<Rightarrow>
                 \<lparr> answer = ''No response generated.'', references = [], fileIds = [],
                   chartConfig = None \<rparr>)))
       (\<lambda>error. return_io
          \<lparr> answer = ''I encountered an error while processing your query.'',
            references = [], fileIds = [], chartConfig = None \<rparr>)"

section \<open>Observations on a run\<close>


fun isKeywordSearch :: "event \<Rightarrow> bool" where
  "isKeywordSearch (KeywordSearch ks n) = True"
| "isKeywordSearch ev = False"

fun isUnrestrictedFetch :: "event \<Rightarrow> bool" where
  "isUnrestrictedFetch (UnrestrictedFetch n) = True"
| "isUnrestrictedFetch ev = False"




definition raises :: "exn + 'a \<Rightarrow> bool" where
  "raises r = (case r of Inl e \<Rightarrow> True | Inr x \<Rightarrow> False)"

section \<open>Example collaborators\<close>

definition entry1 :: entry where
  "entry1 = \<lparr> fileId = ''file_001'', question = ''What is machine learning?'',
              e_answer = ''Machine learning is a subset of artificial intelligence.'' \<rparr>"

text \<open>Every service is down.\<close>

definition env_down :: env where
  "env_down =
     \<lparr> chatModel = (\<lambda>p. Inl (Error ''completion service unavailable'')),
       nearText = (\<lambda>q n. Inl (Error ''similarity search failed'')),
       containsAny = (\<lambda>ks n. Inl (Error ''keyword search failed'')),
       getter = (\<lambda>n. Inl (Error ''fetch failed'')),
       JSON_parse = (\<lambda>s. Inl (Error ''Unexpected token'')) \<rparr>"

text \<open>The database answers every search with no entry.\<close>

definition env_empty :: env where
  "env_empty =
     env_down\<lparr> nearText := (\<lambda>q n. Inr (Some [])), containsAny := (\<lambda>ks n. Inr (Some [])),
               getter := (\<lambda>n. Inr (Some [])) \<rparr>"

text \<open>
  The classification answers \<open>both\<close>, the chart parameters come back as prose, the
  similarity search finds one entry, and the completion service fails on every other
  prompt.
\<close>

definition env_both :: env where
  "env_both =
     env_down\<lparr> chatModel :=
                 (\<lambda>p. case p of
                         AnalyzePrompt q \<Rightarrow> Inr ''both''
                       | ChartPrompt q \<Rightarrow> Inr ''A bar chart of sales.''
                       | _ \<Rightarrow> Inl (Error ''completion service unavailable'')),
               nearText := (\<lambda>q n. Inr (Some [entry1])) \<rparr>"

text \<open>The classification answers with a word that is none of the four tokens.\<close>

definition env_unsure :: env where
  "env_unsure = env_down\<lparr> chatModel := (\<lambda>p. Inr '' Maybe '') \<rparr>"

text \<open>As \<open>env_both\<close>, with chart parameters that parse: a pie chart with its own title.\<close>

definition env_chart :: env where
  "env_chart =
     env_both\<lparr> JSON_parse :=
                 (\<lambda>s. Inr (JsonValue (Some ''pie'') (Some ''sales by region'')
                                (Some ''Sales by region''))) \<rparr>"

text \<open>As \<open>env_both\<close>, with a completion that parses to \<open>null\<close>.\<close>

definition env_null :: env where
  "env_null = env_both\<lparr> JSON_parse := (\<lambda>s. Inr JsonNull) \<rparr>"

section \<open>Facts about the effect combinators\<close>

lemmas io_defs =
  bind_io_def try_catch_def call_def emit_def return_io_def throw_io_def invoke_def

lemma fst_try_catch_total:
  assumes "\<And>e. \<exists>x. fst (h e) = Inr x"
  shows "\<exists>x. fst (try_catch m h) = Inr x"
proof (cases m)
  case (Pair r l)
  show ?thesis
  proof (cases r)
    case (Inl e)
    from assms obtain x where "fst (h e) = Inr x" by blast
    with Pair Inl show ?thesis by (cases "h e") (simp add: try_catch_def)
  next
    case (Inr x)
    with Pair show ?thesis by (simp add: try_catch_def)
  qed
qed

lemma fst_bind_io:
  "fst (bind_io m f) = (case fst m of Inl e \<Rightarrow> Inl e | Inr x \<Rightarrow> fst (f x))"
  by (cases m) (auto simp: bind_io_def split: sum.splits prod.splits)




section \<open>Keyword extraction\<close>

lemma isWhiteSpace_toLowerChar: "isWhiteSpace (toLowerChar c) = isWhiteSpace c"
  unfolding isWhiteSpace_def toLowerChar_def isUpper_def Let_def
  by auto

lemma toLowerChar_space: "toLowerChar (CHR '' '') = CHR '' ''"
  by (simp add: toLowerChar_def isUpper_def)

lemma isWhiteSpace_space: "isWhiteSpace (CHR '' '')"
  by (simp add: isWhiteSpace_def)

lemma splitAt_cong: "(\<forall>c\<in>set s. p c = q c) \<Longrightarrow> splitAt p s = splitAt q s"
  by (induction s) auto

lemma cleaned_white_space:
  assumes "isWhiteSpace c \<longrightarrow> c = CHR '' ''"
  shows "isWhiteSpace (replacePunct (toLowerChar c)) = (replacePunct (toLowerChar c) = CHR '' '')"
proof (cases "\<not> isWordChar (toLowerChar c) \<and> \<not> isWhiteSpace (toLowerChar c)")
  case True
  then show ?thesis by (simp add: replacePunct_def isWhiteSpace_space)
next
  case False
  then have r: "replacePunct (toLowerChar c) = toLowerChar c"
    by (auto simp: replacePunct_def)
  show ?thesis
  proof
    assume "isWhiteSpace (replacePunct (toLowerChar c))"
    then have "isWhiteSpace c" by (simp add: r isWhiteSpace_toLowerChar)
    with assms have "toLowerChar c = CHR '' ''" by (simp add: toLowerChar_space)
    with r show "replacePunct (toLowerChar c) = CHR '' ''" by simp
  next
    assume "replacePunct (toLowerChar c) = CHR '' ''"
    then show "isWhiteSpace (replacePunct (toLowerChar c))" by (simp add: isWhiteSpace_space)
  qed
qed

lemma extractKeywords_agree:
  assumes "\<forall>c\<in>set query. isWhiteSpace c \<longrightarrow> c = CHR '' ''"
  shows "extractKeywords query = extractKeywords_spec query"
proof -
  have "\<forall>d\<in>set (map replacePunct (toLowerCase query)). (d = CHR '' '') = isWhiteSpace d"
    using assms by (auto simp: toLowerCase_def cleaned_white_space)
  then have "splitAt (\<lambda>c. c = CHR '' '') (map replacePunct (toLowerCase query))
           = splitAt isWhiteSpace (map replacePunct (toLowerCase query))"
    by (rule splitAt_cong)
  then show ?thesis by (simp add: extractKeywords_def extractKeywords_spec_def)
qed

lemma extractKeywords_meaningful:
  "w \<in> set (extractKeywords query) \<Longrightarrow> meaningful w"
  unfolding extractKeywords_def by (auto dest: in_set_takeD)

text \<open>
  What the code and the description agree on: the keywords of
  \<open>What is the Capital of France?\<close>; every query whose only white space is the space
  character; at most three keywords, each longer than two characters and no stop word.
\<close>

lemma extractKeywords_properties:
  "extractKeywords ''What is the Capital of France?'' = [''what'', ''capital'', ''france'']
   \<and> ((\<forall>c\<in>set query. isWhiteSpace c \<longrightarrow> c = CHR '' '') \<longrightarrow>
        extractKeywords query = extractKeywords_spec query)
   \<and> length (extractKeywords query') \<le> 3
   \<and> (\<forall>w\<in>set (extractKeywords query'). length w > 2 \<and> w \<notin> set stopWords)"
proof (intro conjI impI ballI)
  show "extractKeywords ''What is the Capital of France?'' = [''what'', ''capital'', ''france'']"
    by code_simp
next
  assume "\<forall>c\<in>set query. isWhiteSpace c \<longrightarrow> c = CHR '' ''"
  then show "extractKeywords query = extractKeywords_spec query" by (rule extractKeywords_agree)
next
  show "length (extractKeywords query') \<le> 3" by (simp add: extractKeywords_def)
next
  fix w assume "w \<in> set (extractKeywords query')"
  then have "meaningful w" by (rule extractKeywords_meaningful)
  then show "length w > 2" and "w \<notin> set stopWords" by (simp_all add: meaningful_def)
qed


lemma keywords_tab:
  "extractKeywords (''deep'' @ [CHR 0x09] @ ''learning'') = [''deep'' @ [CHR 0x09] @ ''learning'']"
  by code_simp

text \<open>
  Claim C6 at a failing input, the query \<open>deep<TAB>learning\<close>. Splitting on white space
  gives the keywords \<open>deep\<close> and \<open>learning\<close>. The code keeps the tab through the
  replacement (the class \<open>\s\<close>) and then splits at the space character only, so its one
  keyword is \<open>deep<TAB>learning\<close>, and that is the keyword list sent to the keyword search
  when the similarity search raises.
\<close>

theorem keyword_split_at_failing_input:
  "extractKeywords_spec (''deep'' @ [CHR 0x09] @ ''learning'') = [''deep'', ''learning'']
   \<and> extractKeywords (''deep'' @ [CHR 0x09] @ ''learning'')
       = [''deep'' @ [CHR 0x09] @ ''learning'']
   \<and> extractKeywords (''deep'' @ [CHR 0x09] @ ''learning'')
       \<noteq> extractKeywords_spec (''deep'' @ [CHR 0x09] @ ''learning'')
   \<and> snd (directSearch env_down (''deep'' @ [CHR 0x09] @ ''learning'') 3) =
       [SimilaritySearch (''deep'' @ [CHR 0x09] @ ''learning'') 3,
        KeywordSearch [''deep'' @ [CHR 0x09] @ ''learning''] 3,
        UnrestrictedFetch 3]"
proof (intro conjI)
  show "extractKeywords_spec (''deep'' @ [CHR 0x09] @ ''learning'') = [''deep'', ''learning'']"
    by code_simp
  show "extractKeywords (''deep'' @ [CHR 0x09] @ ''learning'')
          = [''deep'' @ [CHR 0x09] @ ''learning'']"
    by (rule keywords_tab)
  show "extractKeywords (''deep'' @ [CHR 0x09] @ ''learning'')
          \<noteq> extractKeywords_spec (''deep'' @ [CHR 0x09] @ ''learning'')"
    by code_simp
  show "snd (directSearch env_down (''deep'' @ [CHR 0x09] @ ''learning'') 3) =
       [SimilaritySearch (''deep'' @ [CHR 0x09] @ ''learning'') 3,
        KeywordSearch [''deep'' @ [CHR 0x09] @ ''learning''] 3,
        UnrestrictedFetch 3]"
    by code_simp
qed

section \<open>The entry point never raises\<close>

text \<open>
  Claim C2. Whatever the collaborators do (return or raise, on any call), \<open>processQuery\<close>
  returns a response object with the fields \<open>answer\<close>, \<open>references\<close>, \<open>fileIds\<close> and
  \<open>chartConfig\<close>; it never rejects.
\<close>

theorem processQuery_never_raises:
  "\<exists>response. fst (processQuery env query) = Inr response"
  unfolding processQuery_def by (rule fst_try_catch_total) (simp add: return_io_def)

section \<open>The retrieval handler\<close>

text \<open>
  Claim C7. When the fallback chain succeeds with zero entries, \<open>RAGAgent.query\<close> returns
  (it does not raise) the outcome with \<open>success\<close> false, the fixed answer text
  \<open>I could not find relevant information in the database.\<close> and no sources.
\<close>

theorem soft_miss:
  assumes "fst (directSearch env query 3) = Inr found"
      and "sr_success found" and "sr_results found = Some []"
  shows "fst (RAGAgent_query env query) =
           Inr \<lparr> rr_success = False,
                 rr_answer = Some ''I could not find relevant information in the database.'',
                 rr_sources = Some [], rr_error = None \<rparr>"
  using assms
  by (cases "directSearch env query 3")
     (simp add: RAGAgent_query_def bind_io_def try_catch_def emit_def return_io_def)

theorem soft_miss_witness:
  "fst (directSearch env_empty ''anything'' 3) =
     Inr \<lparr> sr_success = True, sr_results = Some [], sr_count = Some 0, sr_note = None,
           sr_error = None, sr_message = None \<rparr>
   \<and> fst (RAGAgent_query env_empty ''anything'') =
       Inr \<lparr> rr_success = False,
             rr_answer = Some ''I could not find relevant information in the database.'',
             rr_sources = Some [], rr_error = None \<rparr>"
proof -
  have found: "fst (directSearch env_empty ''anything'' 3) =
     Inr \<lparr> sr_success = True, sr_results = Some [], sr_count = Some 0, sr_note = None,
           sr_error = None, sr_message = None \<rparr>"
    by (simp add: directSearch_def env_empty_def env_down_def readGet_def io_defs)
  have "fst (RAGAgent_query env_empty ''anything'') =
       Inr \<lparr> rr_success = False,
             rr_answer = Some ''I could not find relevant information in the database.'',
             rr_sources = Some [], rr_error = None \<rparr>"
    by (rule soft_miss [OF found]) simp_all
  with found show ?thesis by simp
qed

lemma RAGAgent_query_returns: "\<exists>outcome. fst (RAGAgent_query env query) = Inr outcome"
  unfolding RAGAgent_query_def fst_bind_io
  by (simp add: emit_def) (rule fst_try_catch_total, simp add: return_io_def)

lemma directSearch_env_both:
  "fst (directSearch env_both q 3) =
     Inr \<lparr> sr_success = True, sr_results = Some [entry1], sr_count = Some 1, sr_note = None,
           sr_error = None, sr_message = None \<rparr>"
  by (simp add: directSearch_def env_both_def env_down_def readGet_def io_defs)

text \<open>
  Claim C4, as the code has it. When the entries are found and the completion call of
  \<open>RAGAgent.query\<close> raises, the handler returns the outcome with \<open>success\<close> false, the
  exception's message as \<open>error\<close>, the fixed answer text
  \<open>I encountered an error while processing your query.\<close> and no \<open>sources\<close> property;
  and \<open>RAGAgent.query\<close> never raises, whatever the collaborators do.
\<close>

theorem completion_failure_outcome:
  assumes "fst (directSearch env query 3) = Inr found"
      and "sr_success found" and "sr_results found = Some results" and "results \<noteq> []"
      and "chatModel env (RagPrompt (join [CHR 0x0A] (map formatEntry results)) query)
             = Inl error"
  shows "fst (RAGAgent_query env query) =
           Inr \<lparr> rr_success = False,
                 rr_answer = Some ''I encountered an error while processing your query.'',
                 rr_sources = None, rr_error = Some (message error) \<rparr>
         \<and> (\<exists>outcome. fst (RAGAgent_query env' query') = Inr outcome)"
proof
  show "fst (RAGAgent_query env query) =
           Inr \<lparr> rr_success = False,
                 rr_answer = Some ''I encountered an error while processing your query.'',
                 rr_sources = None, rr_error = Some (message error) \<rparr>"
    using assms
    by (cases "directSearch env query 3") (simp add: RAGAgent_query_def io_defs)
  show "\<exists>outcome. fst (RAGAgent_query env' query') = Inr outcome"
    by (rule RAGAgent_query_returns)
qed

theorem completion_failure_outcome_witness:
  "chatModel env_both (RagPrompt (join [CHR 0x0A] (map formatEntry [entry1]))
       ''What is machine learning?'') = Inl (Error ''completion service unavailable'')
   \<and> fst (RAGAgent_query env_both ''What is machine learning?'') =
         Inr \<lparr> rr_success = False,
               rr_answer = Some ''I encountered an error while processing your query.'',
               rr_sources = None, rr_error = Some ''completion service unavailable'' \<rparr>
   \<and> (\<exists>outcome. fst (RAGAgent_query env_down ''Hello'') = Inr outcome)"
  using completion_failure_outcome
          [OF directSearch_env_both, of "[entry1]" "''What is machine learning?''"
             "Error ''completion service unavailable''" env_down "''Hello''"]
  by (simp add: env_both_def env_down_def)

text \<open>
  The outcome that claim C4 states (answer text \<open>null\<close>, sources \<open>[]\<close>) is not the one
  returned when the completion call raises.
\<close>

theorem completion_failure_counterexample:
  "chatModel env_both (RagPrompt (formatEntry entry1) ''What is machine learning?'')
      = Inl (Error ''completion service unavailable'')
   \<and> fst (RAGAgent_query env_both ''What is machine learning?'') \<noteq>
       Inr \<lparr> rr_success = False, rr_answer = None, rr_sources = Some [],
             rr_error = Some ''completion service unavailable'' \<rparr>"
  by (simp add: RAGAgent_query_def directSearch_def env_both_def env_down_def readGet_def
        io_defs)

lemma directSearch_log:
  "snd (directSearch env query limit) =
     SimilaritySearch query limit #
       (if raises (nearText env query limit) then
          (if extractKeywords query = [] then [UnrestrictedFetch limit, UnrestrictedFetch limit]
           else KeywordSearch (extractKeywords query) limit #
                  (if raises (containsAny env (extractKeywords query) limit)
                   then [UnrestrictedFetch limit] else []))
        else [])"
  by (auto simp: directSearch_def io_defs readGet_def raises_def Let_def
           split: sum.splits option.splits)

text \<open>
  Claim C5, as the code has it. The similarity search is always the first call. When it
  returns, with or without entries, no other call follows. The keyword search is made
  exactly when the similarity search raised and the query has at least one keyword. The
  unrestricted fetch is made exactly when the similarity search raised and either the
  query has no keyword or the keyword search raised.
\<close>

theorem fallback_chain_order:
  "(\<exists>rest. snd (directSearch env query limit) = SimilaritySearch query limit # rest)
   \<and> (\<not> raises (nearText env query limit) \<longrightarrow>
        snd (directSearch env query limit) = [SimilaritySearch query limit])
   \<and> (list_ex isKeywordSearch (snd (directSearch env query limit)) \<longleftrightarrow>
        raises (nearText env query limit) \<and> extractKeywords query \<noteq> [])
   \<and> (list_ex isUnrestrictedFetch (snd (directSearch env query limit)) \<longleftrightarrow>
        raises (nearText env query limit)
        \<and> (extractKeywords query = []
            \<or> raises (containsAny env (extractKeywords query) limit)))"
  by (simp add: directSearch_log)

lemma keywords_hi: "extractKeywords ''hi'' = []"
  by code_simp
lemma keywords_machine_learning:
  "extractKeywords ''What is machine learning?'' = [''what'', ''machine'', ''learning'']"
  by code_simp

theorem fallback_chain_order_witness:
  "snd (directSearch env_empty ''What is machine learning?'' 3)
      = [SimilaritySearch ''What is machine learning?'' 3]
   \<and> list_ex isKeywordSearch (snd (directSearch env_down ''What is machine learning?'' 3))
   \<and> list_ex isUnrestrictedFetch (snd (directSearch env_down ''What is machine learning?'' 3))
   \<and> list_ex isUnrestrictedFetch (snd (directSearch env_down ''hi'' 3))
   \<and> \<not> list_ex isUnrestrictedFetch (snd (directSearch env_empty ''hi'' 3))"
  using fallback_chain_order [of env_empty "''What is machine learning?''" 3]
        fallback_chain_order [of env_down "''What is machine learning?''" 3]
        fallback_chain_order [of env_down "''hi''" 3]
        fallback_chain_order [of env_empty "''hi''" 3]
  by (simp add: env_empty_def env_down_def raises_def keywords_hi keywords_machine_learning)

text \<open>
  Claim C5 as stated fails where the similarity search raises and the query has no
  keyword: the keyword search is not made.
\<close>

theorem fallback_chain_counterexample:
  "raises (nearText env_down ''hi'' 3)
   \<and> \<not> list_ex isKeywordSearch (snd (directSearch env_down ''hi'' 3))
   \<and> snd (directSearch env_down ''hi'' 3)
        = [SimilaritySearch ''hi'' 3, UnrestrictedFetch 3, UnrestrictedFetch 3]"
  by code_simp

section \<open>Classification and routing\<close>

text \<open>
  Claim C1, as the code has it. When the completion's text, lower-cased and trimmed, is
  none of \<open>chart\<close>, \<open>rag\<close>, \<open>both\<close>, \<open>direct\<close>, the classification step does not fail: it
  stores that text itself as the decision, and \<open>routeDecision\<close> sends the request to
  \<open>direct_response\<close>.
\<close>

theorem unclassified_routes_direct:
  assumes "chatModel env (AnalyzePrompt (userQuery s)) = Inr response"
      and "trim (toLowerCase response) \<notin> {''chart'', ''rag'', ''both'', ''direct''}"
  shows "\<exists>u. fst (analyzeQuery env s) = Inr u
             \<and> decision (applyUpdate s u) = Some (trim (toLowerCase response))
             \<and> routeDecision (applyUpdate s u) = direct_response"
  using assms
  by (simp add: analyzeQuery_def io_defs Let_def applyUpdate_def noUpdate_def
        routeDecision_def)

lemma trim_maybe: "trim (toLowerCase '' Maybe '') = ''maybe''"
  by code_simp

theorem unclassified_routes_direct_witness:
  "chatModel env_unsure (AnalyzePrompt (userQuery (initialState ''Hello''))) = Inr '' Maybe ''
   \<and> trim (toLowerCase '' Maybe '') \<notin> {''chart'', ''rag'', ''both'', ''direct''}
   \<and> (\<exists>u. fst (analyzeQuery env_unsure (initialState ''Hello'')) = Inr u
           \<and> decision (applyUpdate (initialState ''Hello'') u) = Some ''maybe''
           \<and> routeDecision (applyUpdate (initialState ''Hello'') u) = direct_response)"
  using unclassified_routes_direct [of env_unsure "initialState ''Hello''" "'' Maybe ''"]
  by (simp add: trim_maybe env_unsure_def env_down_def initialState_def)

text \<open>
  The decision that claim C1 states, \<open>rag\<close>, is not the one resolved: on the answer
  \<open>Maybe\<close> the decision is \<open>maybe\<close>, and the run goes through \<open>direct_response\<close> and never
  calls the retrieval handler.
\<close>

theorem unclassified_counterexample:
  "trim (toLowerCase '' Maybe '') \<notin> {''chart'', ''rag'', ''both'', ''direct''}
   \<and> map_sum id u_decision (fst (analyzeQuery env_unsure (initialState ''Hello'')))
       = Inr (Some ''maybe'')
   \<and> snd (processQuery env_unsure ''Hello'') =
        [NodeRun analyze_query, CompletionCall (AnalyzePrompt ''Hello''),
         NodeRun direct_response, CompletionCall (DirectPrompt ''Hello'')]"
  by code_simp

section \<open>The visualization handler\<close>

lemma ChartTool_call_result:
  "\<exists>config. ChartTool_call input =
     (Inr \<lparr> cr_success = True, cr_chartConfig = Some config,
            cr_message = Some (''Generated '' @ chart_type config @ '' chart configuration for: ''
                                 @ title_text config),
            cr_error = None \<rparr>, [])"
  by (cases input) (simp_all add: ChartTool_call_def try_catch_def return_io_def Let_def)

lemma executeChartTool_returns: "\<exists>u. fst (executeChartTool env s) = Inr u"
  unfolding executeChartTool_def by (rule fst_try_catch_total) (simp add: return_io_def)

lemma ChartTool_call_value:
  "ChartTool_call (JsonValue ct d t) =
     (Inr \<lparr> cr_success = True,
            cr_chartConfig =
              Some \<lparr> chart_type = or_default ct ''bar'',
                     chart_data = generateMockData (or_default ct ''bar'') (or_default d ''Data''),
                     title_text = or_default t ''Chart'',
                     scales = (or_default ct ''bar'' \<noteq> ''pie''
                               \<and> or_default ct ''bar'' \<noteq> ''doughnut'') \<rparr>,
            cr_message = Some (''Generated '' @ or_default ct ''bar''
                                 @ '' chart configuration for: '' @ or_default t ''Chart''),
            cr_error = None \<rparr>, [])"
  by (simp add: ChartTool_call_def try_catch_def return_io_def Let_def)

lemma ChartTool_call_null:
  "ChartTool_call JsonNull =
     (Inr \<lparr> cr_success = True,
            cr_chartConfig =
              Some \<lparr> chart_type = ''bar'', chart_data = generateMockData ''bar'' ''null'',
                     title_text = ''Chart'', scales = True \<rparr>,
            cr_message = Some ''Generated bar chart configuration for: Chart'',
            cr_error = None \<rparr>, [])"
  by (simp add: ChartTool_call_def try_catch_def return_io_def Let_def or_default_def)

lemma executeChartTool_success:
  assumes "chatModel env (ChartPrompt (userQuery s)) = Inr response"
  shows "map_sum id u_chartResult (fst (executeChartTool env s)) =
           map_sum id Some (fst (ChartTool_call (parseChartParams env (userQuery s) response)))"
proof -
  obtain r where "ChartTool_call (parseChartParams env (userQuery s) response) = (Inr r, [])"
    using ChartTool_call_result by blast
  with assms show ?thesis
    by (simp add: executeChartTool_def io_defs noUpdate_def)
qed

text \<open>
  Claim C8, as the code has it. \<open>executeChartTool\<close> never raises. When its completion call
  raises, the outcome is \<open>success\<close> false with the exception's message as \<open>error\<close>. When
  the completion call returns, the outcome is \<open>success\<close> true with a chart configuration
  and the message \<open>Generated <kind> chart configuration for: <title>\<close>, kind and title
  being those of the configuration. When \<open>JSON.parse\<close> raises on the completion, the
  parameters are the defaults (kind \<open>bar\<close>, title \<open>Data Visualization\<close>, data description
  the original query), and the outcome of the handler is the bar chart titled
  \<open>Data Visualization\<close>. When the completion parses, kind, title and data description of
  the outcome are those of the completion, each replaced by the chart tool's own default
  (\<open>bar\<close>, \<open>Chart\<close>, \<open>Data\<close>) where it is missing or empty; on \<open>null\<close> they are \<open>bar\<close>,
  \<open>Chart\<close> and the text \<open>null\<close>.
\<close>

theorem visualization_outcome:
  "(\<exists>u. fst (executeChartTool env s) = Inr u)
   \<and> (chatModel envF (ChartPrompt (userQuery sF)) = Inl error \<longrightarrow>
        map_sum id u_chartResult (fst (executeChartTool envF sF)) =
          Inr (Some \<lparr> cr_success = False, cr_chartConfig = None, cr_message = None,
                      cr_error = Some (message error) \<rparr>))
   \<and> (chatModel envS (ChartPrompt (userQuery sS)) = Inr response \<longrightarrow>
        (\<exists>config. map_sum id u_chartResult (fst (executeChartTool envS sS)) =
           Inr (Some \<lparr> cr_success = True, cr_chartConfig = Some config,
                       cr_message = Some (''Generated '' @ chart_type config
                                            @ '' chart configuration for: '' @ title_text config),
                       cr_error = None \<rparr>)))
   \<and> (chatModel envD (ChartPrompt (userQuery sD)) = Inr responseD
        \<and> raises (JSON_parse envD responseD) \<longrightarrow>
        parseChartParams envD (userQuery sD) responseD =
          JsonValue (Some ''bar'') (Some (userQuery sD)) (Some ''Data Visualization'')
        \<and> map_sum id u_chartResult (fst (executeChartTool envD sD)) =
            Inr (Some \<lparr> cr_success = True,
                        cr_chartConfig =
                          Some \<lparr> chart_type = ''bar'',
                                 chart_data =
                                   generateMockData ''bar'' (or_default (Some (userQuery sD)) ''Data''),
                                 title_text = ''Data Visualization'', scales = True \<rparr>,
                        cr_message =
                          Some ''Generated bar chart configuration for: Data Visualization'',
                        cr_error = None \<rparr>))
   \<and> (chatModel envP (ChartPrompt (userQuery sP)) = Inr responseP
        \<and> JSON_parse envP responseP = Inr (JsonValue ct d t) \<longrightarrow>
        map_sum id u_chartResult (fst (executeChartTool envP sP)) =
          Inr (Some \<lparr> cr_success = True,
                      cr_chartConfig =
                        Some \<lparr> chart_type = or_default ct ''bar'',
                               chart_data =
                                 generateMockData (or_default ct ''bar'') (or_default d ''Data''),
                               title_text = or_default t ''Chart'',
                               scales = (or_default ct ''bar'' \<noteq> ''pie''
                                         \<and> or_default ct ''bar'' \<noteq> ''doughnut'') \<rparr>,
                      cr_message =
                        Some (''Generated '' @ or_default ct ''bar''
                                @ '' chart configuration for: '' @ or_default t ''Chart''),
                      cr_error = None \<rparr>))
   \<and> (chatModel envN (ChartPrompt (userQuery sN)) = Inr responseN
        \<and> JSON_parse envN responseN = Inr JsonNull \<longrightarrow>
        map_sum id u_chartResult (fst (executeChartTool envN sN)) =
          Inr (Some \<lparr> cr_success = True,
                      cr_chartConfig =
                        Some \<lparr> chart_type = ''bar'',
                               chart_data = generateMockData ''bar'' ''null'',
                               title_text = ''Chart'', scales = True \<rparr>,
                      cr_message = Some ''Generated bar chart configuration for: Chart'',
                      cr_error = None \<rparr>))"
proof (intro conjI impI)
  show "\<exists>u. fst (executeChartTool env s) = Inr u" by (rule executeChartTool_returns)
next
  assume "chatModel envF (ChartPrompt (userQuery sF)) = Inl error"
  then show "map_sum id u_chartResult (fst (executeChartTool envF sF)) =
          Inr (Some \<lparr> cr_success = False, cr_chartConfig = None, cr_message = None,
                      cr_error = Some (message error) \<rparr>)"
    by (simp add: executeChartTool_def io_defs noUpdate_def)
next
  assume r: "chatModel envS (ChartPrompt (userQuery sS)) = Inr response"
  obtain config where c: "ChartTool_call (parseChartParams envS (userQuery sS) response) =
     (Inr \<lparr> cr_success = True, cr_chartConfig = Some config,
            cr_message = Some (''Generated '' @ chart_type config @ '' chart configuration for: ''
                                 @ title_text config),
            cr_error = None \<rparr>, [])"
    using ChartTool_call_result by blast
  show "\<exists>config. map_sum id u_chartResult (fst (executeChartTool envS sS)) =
           Inr (Some \<lparr> cr_success = True, cr_chartConfig = Some config,
                       cr_message = Some (''Generated '' @ chart_type config
                                            @ '' chart configuration for: '' @ title_text config),
                       cr_error = None \<rparr>)"
    using executeChartTool_success [OF r] c by (intro exI [of _ config]) simp
next
  assume a: "chatModel envD (ChartPrompt (userQuery sD)) = Inr responseD
             \<and> raises (JSON_parse envD responseD)"
  then show p: "parseChartParams envD (userQuery sD) responseD =
          JsonValue (Some ''bar'') (Some (userQuery sD)) (Some ''Data Visualization'')"
    by (simp add: parseChartParams_def raises_def split: sum.splits)
  from a have "chatModel envD (ChartPrompt (userQuery sD)) = Inr responseD" by simp
  from executeChartTool_success [OF this]
  show "map_sum id u_chartResult (fst (executeChartTool envD sD)) =
            Inr (Some \<lparr> cr_success = True,
                        cr_chartConfig =
                          Some \<lparr> chart_type = ''bar'',
                                 chart_data =
                                   generateMockData ''bar'' (or_default (Some (userQuery sD)) ''Data''),
                                 title_text = ''Data Visualization'', scales = True \<rparr>,
                        cr_message =
                          Some ''Generated bar chart configuration for: Data Visualization'',
                        cr_error = None \<rparr>)"
    by (simp add: p ChartTool_call_value) (simp add: or_default_def)
next
  assume a: "chatModel envP (ChartPrompt (userQuery sP)) = Inr responseP
             \<and> JSON_parse envP responseP = Inr (JsonValue ct d t)"
  then have p: "parseChartParams envP (userQuery sP) responseP = JsonValue ct d t"
    by (simp add: parseChartParams_def)
  from a have "chatModel envP (ChartPrompt (userQuery sP)) = Inr responseP" by simp
  from executeChartTool_success [OF this]
  show "map_sum id u_chartResult (fst (executeChartTool envP sP)) =
          Inr (Some \<lparr> cr_success = True,
                      cr_chartConfig =
                        Some \<lparr> chart_type = or_default ct ''bar'',
                               chart_data =
                                 generateMockData (or_default ct ''bar'') (or_default d ''Data''),
                               title_text = or_default t ''Chart'',
                               scales = (or_default ct ''bar'' \<noteq> ''pie''
                                         \<and> or_default ct ''bar'' \<noteq> ''doughnut'') \<rparr>,
                      cr_message =
                        Some (''Generated '' @ or_default ct ''bar''
                                @ '' chart configuration for: '' @ or_default t ''Chart''),
                      cr_error = None \<rparr>)"
    by (simp add: p ChartTool_call_value)
next
  assume a: "chatModel envN (ChartPrompt (userQuery sN)) = Inr responseN
             \<and> JSON_parse envN responseN = Inr JsonNull"
  then have p: "parseChartParams envN (userQuery sN) responseN = JsonNull"
    by (simp add: parseChartParams_def)
  from a have "chatModel envN (ChartPrompt (userQuery sN)) = Inr responseN" by simp
  from executeChartTool_success [OF this]
  show "map_sum id u_chartResult (fst (executeChartTool envN sN)) =
          Inr (Some \<lparr> cr_success = True,
                      cr_chartConfig =
                        Some \<lparr> chart_type = ''bar'',
                               chart_data = generateMockData ''bar'' ''null'',
                               title_text = ''Chart'', scales = True \<rparr>,
                      cr_message = Some ''Generated bar chart configuration for: Chart'',
                      cr_error = None \<rparr>)"
    by (simp add: p ChartTool_call_null)
qed


theorem visualization_outcome_witness:
  "(\<exists>u. fst (executeChartTool env_both (initialState ''Sales per month'')) = Inr u)
   \<and> map_sum id u_chartResult (fst (executeChartTool env_down (initialState ''Sales per month''))) =
          Inr (Some \<lparr> cr_success = False, cr_chartConfig = None, cr_message = None,
                      cr_error = Some ''completion service unavailable'' \<rparr>)
   \<and> (\<exists>config. map_sum id u_chartResult
                   (fst (executeChartTool env_both (initialState ''Sales per month''))) =
           Inr (Some \<lparr> cr_success = True, cr_chartConfig = Some config,
                       cr_message = Some (''Generated '' @ chart_type config
                                            @ '' chart configuration for: '' @ title_text config),
                       cr_error = None \<rparr>))
   \<and> chatModel env_both (ChartPrompt ''Sales per month'') = Inr ''A bar chart of sales.''
   \<and> raises (JSON_parse env_both ''A bar chart of sales.'')
   \<and> parseChartParams env_both ''Sales per month'' ''A bar chart of sales.'' =
          JsonValue (Some ''bar'') (Some ''Sales per month'') (Some ''Data Visualization'')
   \<and> map_sum id u_chartResult (fst (executeChartTool env_both (initialState ''Sales per month''))) =
         Inr (Some \<lparr> cr_success = True,
                     cr_chartConfig =
                       Some \<lparr> chart_type = ''bar'',
                              chart_data = generateMockData ''bar'' ''Sales per month'',
                              title_text = ''Data Visualization'', scales = True \<rparr>,
                     cr_message =
                       Some ''Generated bar chart configuration for: Data Visualization'',
                     cr_error = None \<rparr>)
   \<and> map_sum id u_chartResult (fst (executeChartTool env_chart (initialState ''Sales per month''))) =
         Inr (Some \<lparr> cr_success = True,
                     cr_chartConfig =
                       Some \<lparr> chart_type = ''pie'',
                              chart_data = generateMockData ''pie'' ''sales by region'',
                              title_text = ''Sales by region'', scales = False \<rparr>,
                     cr_message =
                       Some ''Generated pie chart configuration for: Sales by region'',
                     cr_error = None \<rparr>)
   \<and> map_sum id u_chartResult (fst (executeChartTool env_null (initialState ''Sales per month''))) =
         Inr (Some \<lparr> cr_success = True,
                     cr_chartConfig =
                       Some \<lparr> chart_type = ''bar'',
                              chart_data = generateMockData ''bar'' ''null'',
                              title_text = ''Chart'', scales = True \<rparr>,
                     cr_message = Some ''Generated bar chart configuration for: Chart'',
                     cr_error = None \<rparr>)"
  using visualization_outcome
          [where env = env_both and s = "initialState ''Sales per month''"
             and envF = env_down and sF = "initialState ''Sales per month''"
             and error = "Error ''completion service unavailable''"
             and envS = env_both and sS = "initialState ''Sales per month''"
             and response = "''A bar chart of sales.''"
             and envD = env_both and sD = "initialState ''Sales per month''"
             and responseD = "''A bar chart of sales.''"
             and envP = env_chart and sP = "initialState ''Sales per month''"
             and responseP = "''A bar chart of sales.''"
             and ct = "Some ''pie''" and d = "Some ''sales by region''"
             and t = "Some ''Sales by region''"
             and envN = env_null and sN = "initialState ''Sales per month''"
             and responseN = "''A bar chart of sales.''"]
  by (simp add: env_both_def env_down_def env_chart_def env_null_def initialState_def
        raises_def or_default_def)

text \<open>
  The message that claim C8 states, \<open>Generated <kind> chart for: <title>\<close>, is not the one
  produced on success.
\<close>

theorem visualization_message_counterexample:
  "map_sum id (\<lambda>u. map_option cr_success (u_chartResult u))
       (fst (executeChartTool env_both (initialState ''Sales per month''))) = Inr (Some True)
   \<and> map_sum id (\<lambda>u. Option.bind (u_chartResult u) cr_message)
       (fst (executeChartTool env_both (initialState ''Sales per month'')))
       = Inr (Some ''Generated bar chart configuration for: Data Visualization'')
   \<and> map_sum id (\<lambda>u. Option.bind (u_chartResult u) cr_message)
       (fst (executeChartTool env_both (initialState ''Sales per month'')))
       \<noteq> Inr (Some ''Generated bar chart for: Data Visualization'')"
  by code_simp

section \<open>Combination\<close>

text \<open>
  Claim C3 at a failing input: the decision is \<open>both\<close>, the visualization succeeds with
  the message \<open>Generated bar chart configuration for: Data Visualization\<close>, and the
  retrieval fails because its completion call raises. The final answer is the prefix
  \<open>I've created a chart for you. \<close> that \<open>combineResults\<close> has put into \<open>finalAnswer\<close>; the
  branch under \<open>if (!finalAnswer)\<close> that would take the message is not entered. The chart
  configuration of the response is the one of the visualization.
\<close>

theorem chart_only_answer_at_failing_input:
  "map_sum id (\<lambda>s. Option.bind (chartResult s) cr_message)
       (fst (app_invoke env_both (initialState ''Explain neural networks and chart them'')))
     = Inr (Some ''Generated bar chart configuration for: Data Visualization'')
   \<and> map_sum id rr_success (fst (RAGAgent_query env_both ''Explain neural networks and chart them''))
     = Inr False
   \<and> map_sum id answer (fst (processQuery env_both ''Explain neural networks and chart them''))
     = Inr ''I've created a chart for you. ''
   \<and> map_sum id (\<lambda>r. map_option chart_type (chartConfig r)) (fst (processQuery env_both ''Explain neural networks and chart them''))
     = Inr (Some ''bar'')"
  by code_simp

section \<open>Executions of the handlers\<close>


















lemma combineResults_returns: "\<exists>u. fst (combineResults env s) = Inr u"
  unfolding combineResults_def by (rule fst_try_catch_total) (simp add: return_io_def)






section \<open>Single dispatch\<close>






















end
